theory Spec2Isabelle
  imports Complex_Main "HOL-Library.Word"
begin

section \<open>Values of the program\<close>

text \<open>
  Python \<open>str\<close> values are modelled by \<open>string\<close>, \<open>bytes\<close> by lists of 8-bit words.
  \<open>None\<close> is the \<open>None\<close> of an option type.
\<close>

type_synonym str = string
type_synonym bytes = "8 word list"

text \<open>
  The exceptions that the code of \<open>Email.py\<close> can raise.  \<open>NoRecipientException\<close> and
  \<open>NoBodyException\<close> are raised explicitly.  \<open>ValueError\<close> is what Python raises when a
  destructuring assignment such as \<open>((name, mail), ) = ...\<close> or \<open>(maintype, subtype) = ...\<close>
  meets a sequence of the wrong length.  \<open>AttributeError\<close> is what calling \<open>split\<close> or
  \<open>encode\<close> on \<open>None\<close> raises.
\<close>

datatype error = NoRecipientException | NoBodyException | ValueError | AttributeError

subsection \<open>The standard library, as parameters\<close>

text \<open>
  The functions of Python's standard library that \<open>Email.py\<close> calls, and the constant
  \<open>mailcoil.VERSION\<close>, are not part of the source file.  They are parameters of the model:
  \<open>getaddresses\<close> and \<open>formataddr\<close> are those of \<open>email.utils\<close>, \<open>formatdate t localtime\<close>
  is \<open>email.utils.formatdate\<close>, \<open>guess_type\<close> is \<open>mimetypes.guess_type\<close> and
  \<open>textwrap_wrap s width\<close> is \<open>textwrap.wrap(s, width = width)\<close>.
\<close>

record lib =
  getaddresses :: "str list \<Rightarrow> (str \<times> str) list"
  formataddr :: "str \<times> str \<Rightarrow> str"
  formatdate :: "real \<Rightarrow> bool \<Rightarrow> str"
  guess_type :: "str \<Rightarrow> str option \<times> str option"
  textwrap_wrap :: "str \<Rightarrow> nat \<Rightarrow> str list"
  VERSION :: str

subsection \<open>String helpers of Python\<close>

text \<open>\<open>s.split(sep)\<close> for a separator of one character: the empty string gives \<open>['']\<close>.\<close>

fun split :: "char \<Rightarrow> str \<Rightarrow> str list" where
  "split sep [] = [[]]"
| "split sep (c # cs) =
     (if c = sep then [] # split sep cs
      else (case split sep cs of
              [] \<Rightarrow> [[c]]
            | w # ws \<Rightarrow> (c # w) # ws))"

text \<open>\<open>sep.join(xs)\<close>.\<close>

fun join :: "str \<Rightarrow> str list \<Rightarrow> str" where
  "join sep [] = []"
| "join sep [x] = x"
| "join sep (x # y # ys) = x @ sep @ join sep (y # ys)"

text \<open>\<open>str(n)\<close> for a natural number, as the f-string \<open>f"cid{len(...)}"\<close> needs it.\<close>

definition digit :: "nat \<Rightarrow> char" where
  "digit d = char_of (of_char (CHR ''0'') + d)"

fun str_nat :: "nat \<Rightarrow> str" where
  "str_nat n = (if n < 10 then [digit n] else str_nat (n div 10) @ [digit (n mod 10)])"

declare str_nat.simps [simp del]

text \<open>\<open>b.hex()\<close>: two lowercase hexadecimal digits for each byte.\<close>

definition hexdigit :: "nat \<Rightarrow> char" where
  "hexdigit d = (if d < 10 then digit d else char_of (of_char (CHR ''a'') + (d - 10)))"

definition hex :: "bytes \<Rightarrow> str" where
  "hex bs = concat (map (\<lambda>b. [hexdigit (unat b div 16), hexdigit (unat b mod 16)]) bs)"

text \<open>
  \<open>s.encode("utf-8")\<close>.  A \<open>string\<close> already stands for the UTF-8 form of the text, so
  encoding maps every character to its byte.
\<close>

definition encode_utf8 :: "str \<Rightarrow> bytes" where
  "encode_utf8 s = map (\<lambda>c. word_of_nat (of_char c)) s"

section \<open>MailAddress\<close>

record MailAddress =
  mail :: str
  name :: "str option"

text \<open>The argument of \<open>MailAddress.parse\<close> is a \<open>MailAddress\<close> or a \<open>str\<close>.\<close>

datatype addr_arg = Addr MailAddress | Str str

definition encode :: "lib \<Rightarrow> MailAddress \<Rightarrow> str" where
  "encode L self =
     (case name self of
        Some n \<Rightarrow> formataddr L (n, mail self)
      | None \<Rightarrow> mail self)"

text \<open>
  The destructuring \<open>((name, mail), ) = email.utils.getaddresses([ addr ])\<close> raises
  \<open>ValueError\<close> unless the list has exactly one element.
\<close>

definition parse :: "lib \<Rightarrow> addr_arg \<Rightarrow> error + MailAddress" where
  "parse L addr =
     (case addr of
        Addr a \<Rightarrow> Inr a
      | Str s \<Rightarrow>
          (case getaddresses L [s] of
             [(n, m)] \<Rightarrow>
               (if n = '''' then Inr \<lparr>mail = m, name = None\<rparr>
                else Inr \<lparr>mail = m, name = Some n\<rparr>)
           | _ \<Rightarrow> Inl ValueError))"

text \<open>The comprehension \<open>[ MailAddress.parse(addr) for addr in mail_addresses ]\<close>:
  the first address that fails to parse ends it with that error.\<close>

fun parse_all :: "lib \<Rightarrow> addr_arg list \<Rightarrow> error + MailAddress list" where
  "parse_all L [] = Inr []"
| "parse_all L (addr # rest) =
     (case parse L addr of
        Inl err \<Rightarrow> Inl err
      | Inr a \<Rightarrow>
          (case parse_all L rest of
             Inl err \<Rightarrow> Inl err
           | Inr as \<Rightarrow> Inr (a # as)))"

section \<open>MIME entities\<close>

text \<open>
  The objects of \<open>email.mime\<close> are kept symbolic.  \<open>MIMEGeneric payload maintype subtype
  encoder params headers\<close> is a leaf built by \<open>MIMEGeneric.__init__\<close>: the payload it was
  given, its content type, the transfer encoder that was applied to it, the parameters set on
  its \<open>Content-Type\<close> header and the headers assigned to it afterwards, oldest first.
  \<open>MIMEMultipart subtype parts headers\<close> is a \<open>multipart/subtype\<close> container with its
  children in the order they were attached.
\<close>

datatype encoder = encode_base64 | encode_quopri

datatype mime =
  MIMEGeneric bytes str str encoder "(str \<times> str) list" "(str \<times> str) list"
| MIMEMultipart str "mime list" "(str \<times> str) list"

definition MIMEGeneric_init :: "bytes \<Rightarrow> str \<Rightarrow> str \<Rightarrow> encoder \<Rightarrow> mime" where
  "MIMEGeneric_init payload maintype subtype encoder =
     MIMEGeneric payload maintype subtype encoder [] []"

definition MIMEMultipart_init :: "str \<Rightarrow> mime" where
  "MIMEMultipart_init subtype = MIMEMultipart subtype [] []"

text \<open>
  \<open>msg.attach(part)\<close>.  The library refuses it on a leaf; \<open>Email.py\<close> calls it only on a
  container it has just made, so the leaf equation is never reached from the code below.
\<close>

fun attach_part :: "mime \<Rightarrow> mime \<Rightarrow> mime" where
  "attach_part (MIMEMultipart subtype parts headers) part =
     MIMEMultipart subtype (parts @ [part]) headers"
| "attach_part (MIMEGeneric payload maintype subtype encoder params headers) part =
     MIMEGeneric payload maintype subtype encoder params headers"

text \<open>\<open>msg[key] = value\<close> appends a header; it does not replace one of the same name.\<close>

fun set_item :: "mime \<Rightarrow> str \<Rightarrow> str \<Rightarrow> mime" where
  "set_item (MIMEGeneric payload maintype subtype encoder params headers) key val =
     MIMEGeneric payload maintype subtype encoder params (headers @ [(key, val)])"
| "set_item (MIMEMultipart subtype parts headers) key val =
     MIMEMultipart subtype parts (headers @ [(key, val)])"

text \<open>\<open>part.set_param(param, value, header = "Content-Type")\<close>, used on leaves only.\<close>

fun set_param :: "mime \<Rightarrow> str \<Rightarrow> str \<Rightarrow> mime" where
  "set_param (MIMEGeneric payload maintype subtype encoder params headers) param val =
     MIMEGeneric payload maintype subtype encoder (params @ [(param, val)]) headers"
| "set_param (MIMEMultipart subtype parts headers) param val =
     MIMEMultipart subtype parts headers"

fun headers_of :: "mime \<Rightarrow> (str \<times> str) list" where
  "headers_of (MIMEGeneric payload maintype subtype encoder params headers) = headers"
| "headers_of (MIMEMultipart subtype parts headers) = headers"

text \<open>The values of the headers of an entity that are named \<open>key\<close>, oldest first.\<close>

definition header_values :: "mime \<Rightarrow> str \<Rightarrow> str list" where
  "header_values msg key = map snd (filter (\<lambda>h. fst h = key) (headers_of msg))"

section \<open>Attachment\<close>

record Attachment =
  data :: bytes
  maintype :: str
  subtype :: str
  filename :: str
  inline :: bool
  content_id :: str

definition as_mime :: "Attachment \<Rightarrow> mime" where
  "as_mime self =
     (let mime = MIMEGeneric_init (data self) (maintype self) (subtype self) encode_base64;
          mime = set_item mime ''Content-Disposition''
                   ((if inline self then ''inline'' else ''attachment'')
                      @ ''; filename='' @ [CHR 0x22] @ filename self @ [CHR 0x22]);
          mime = set_item mime ''Content-ID'' (content_id self)
      in mime)"

section \<open>SerializedEmail\<close>

text \<open>
  The field \<open>content\<close> is declared as \<open>bytes\<close>; Python does not enforce the annotation, so
  the model keeps which kind of object is stored there: a byte string, or a message object
  of \<open>email.mime\<close>.
\<close>

datatype pyobject = Bytes bytes | Message mime

record SerializedEmail =
  recipients :: "str list"
  content :: pyobject

section \<open>Email\<close>

record Email =
  self_from :: MailAddress
  self_to :: "MailAddress list"
  self_cc :: "MailAddress list"
  self_bcc :: "MailAddress list"
  self_subject :: "str option"
  self_text :: "str option"
  self_wrap_text :: bool
  self_html :: "str option"
  self_security :: "(mime \<Rightarrow> mime) option"
  self_datetime :: real
  self_message_id :: str
  self_attachments :: "Attachment list"

text \<open>
  \<open>Email.__init__\<close>.  \<open>now\<close> is the value of \<open>time.time()\<close> and \<open>rnd\<close> the bytes that
  \<open>os.urandom(16)\<close> returns at the moment of construction.  A security policy is an object
  with a method \<open>process\<close>; the model keeps that method.
\<close>

definition Email_init ::
  "lib \<Rightarrow> real \<Rightarrow> bytes \<Rightarrow> addr_arg \<Rightarrow> str option \<Rightarrow> str option \<Rightarrow> bool \<Rightarrow> str option
     \<Rightarrow> (mime \<Rightarrow> mime) option \<Rightarrow> error + Email" where
  "Email_init L now rnd from_address subject text wrap_text html security =
     (case parse L from_address of
        Inl err \<Rightarrow> Inl err
      | Inr a \<Rightarrow>
          Inr \<lparr>self_from = a, self_to = [], self_cc = [], self_bcc = [],
               self_subject = subject, self_text = text, self_wrap_text = wrap_text,
               self_html = html, self_security = security, self_datetime = now,
               self_message_id = ''<'' @ hex rnd @ ''@mailcoil>'',
               self_attachments = []\<rparr>)"

definition recipient_count :: "Email \<Rightarrow> nat" where
  "recipient_count self = length (self_to self) + length (self_cc self) + length (self_bcc self)"

text \<open>
  \<open>to\<close>, \<open>cc\<close> and \<open>bcc\<close> return the instance with the parsed addresses appended; when an
  address fails to parse the exception leaves before the assignment, and the instance stays
  as it was.
\<close>

definition to :: "lib \<Rightarrow> addr_arg list \<Rightarrow> Email \<Rightarrow> error + Email" where
  "to L mail_addresses self =
     (case parse_all L mail_addresses of
        Inl err \<Rightarrow> Inl err
      | Inr as \<Rightarrow> Inr (self\<lparr>self_to := self_to self @ as\<rparr>))"

definition cc :: "lib \<Rightarrow> addr_arg list \<Rightarrow> Email \<Rightarrow> error + Email" where
  "cc L mail_addresses self =
     (case parse_all L mail_addresses of
        Inl err \<Rightarrow> Inl err
      | Inr as \<Rightarrow> Inr (self\<lparr>self_cc := self_cc self @ as\<rparr>))"

definition bcc :: "lib \<Rightarrow> addr_arg list \<Rightarrow> Email \<Rightarrow> error + Email" where
  "bcc L mail_addresses self =
     (case parse_all L mail_addresses of
        Inl err \<Rightarrow> Inl err
      | Inr as \<Rightarrow> Inr (self\<lparr>self_bcc := self_bcc self @ as\<rparr>))"

definition set_subject :: "str \<Rightarrow> Email \<Rightarrow> Email" where
  "set_subject v self = self\<lparr>self_subject := Some v\<rparr>"

definition set_text :: "str \<Rightarrow> Email \<Rightarrow> Email" where
  "set_text v self = self\<lparr>self_text := Some v\<rparr>"

definition set_html :: "str \<Rightarrow> Email \<Rightarrow> Email" where
  "set_html v self = self\<lparr>self_html := Some v\<rparr>"

definition set_security :: "(mime \<Rightarrow> mime) option \<Rightarrow> Email \<Rightarrow> Email" where
  "set_security v self = self\<lparr>self_security := v\<rparr>"

text \<open>
  The methods whose Python names start with an underscore keep their names without it.
\<close>

definition mimetype :: "lib \<Rightarrow> str \<Rightarrow> str option \<Rightarrow> str" where
  "mimetype L fname override =
     (case override of
        None \<Rightarrow>
          (case fst (guess_type L fname) of
             None \<Rightarrow> ''application/octet-stream''
           | Some mt \<Rightarrow> mt)
      | Some ov \<Rightarrow> ov)"

text \<open>
  \<open>attach_data\<close> returns the \<open>cid:\<close> URI and the instance with the attachment appended.
  The destructuring of \<open>split("/")\<close> raises \<open>ValueError\<close> unless there are two pieces.
  The method \<open>attach\<close> reads the bytes of a file and hands them to \<open>attach_data\<close> with
  the base name of the file; reading files is outside the model.
\<close>

definition attach_data ::
  "lib \<Rightarrow> bytes \<Rightarrow> str \<Rightarrow> str option \<Rightarrow> bool \<Rightarrow> str option \<Rightarrow> Email \<Rightarrow> error + (str \<times> Email)" where
  "attach_data L dat fname mt inl cid self =
     (case split (CHR ''/'') (mimetype L fname mt) of
        [mainty, subty] \<Rightarrow>
          (let cont_id = (case cid of
                            None \<Rightarrow> ''cid'' @ str_nat (length (self_attachments self))
                          | Some c \<Rightarrow> c);
               attachment = \<lparr>data = dat, maintype = mainty, subtype = subty, filename = fname,
                              inline = inl, content_id = cont_id\<rparr>
           in Inr (''cid:'' @ content_id attachment,
                   self\<lparr>self_attachments := self_attachments self @ [attachment]\<rparr>))
      | _ \<Rightarrow> Inl ValueError)"

subsection \<open>Text wrapping\<close>

text \<open>
  The loop of \<open>_wrap_paragraphs\<close> over the paragraphs still to do, with the list
  \<open>wrapped\<close> built so far.
\<close>

fun wrap_loop :: "lib \<Rightarrow> str list \<Rightarrow> str list \<Rightarrow> str list" where
  "wrap_loop L [] wrapped = wrapped"
| "wrap_loop L (paragraph # rest) wrapped =
     (let parwrapped = textwrap_wrap L paragraph 72;
          parwrapped = (if length parwrapped = 0 then [''''] else parwrapped)
      in wrap_loop L rest (wrapped @ parwrapped))"

definition wrap_paragraphs :: "lib \<Rightarrow> str \<Rightarrow> str" where
  "wrap_paragraphs L text = join [CHR 0x0A] (wrap_loop L (split (CHR 0x0A) text) [])"

text \<open>
  What the wrapping of one paragraph is, in the words of the specification: the paragraph
  reflowed to 72 columns by the library, and one empty line where the library returns no
  line at all.
\<close>

definition reflow :: "lib \<Rightarrow> str \<Rightarrow> str list" where
  "reflow L paragraph =
     (if textwrap_wrap L paragraph 72 = [] then [''''] else textwrap_wrap L paragraph 72)"

text \<open>The property \<open>wrapped_text\<close>: wrapping \<open>None\<close> fails in \<open>text.split\<close>.\<close>

definition wrapped_text :: "lib \<Rightarrow> Email \<Rightarrow> error + str option" where
  "wrapped_text L self =
     (if self_wrap_text self then
        (case self_text self of
           None \<Rightarrow> Inl AttributeError
         | Some t \<Rightarrow> Inr (Some (wrap_paragraphs L t)))
      else Inr (self_text self))"

subsection \<open>The layers\<close>

text \<open>\<open>_render_text_quopri\<close>: \<open>text.encode\<close> fails on \<open>None\<close>.\<close>

definition render_text_quopri :: "str option \<Rightarrow> str \<Rightarrow> error + mime" where
  "render_text_quopri text subty =
     (case text of
        None \<Rightarrow> Inl AttributeError
      | Some t \<Rightarrow>
          Inr (set_param (MIMEGeneric_init (encode_utf8 t) ''text'' subty encode_quopri)
                 ''charset'' ''utf-8''))"

definition layer_text_content :: "lib \<Rightarrow> Email \<Rightarrow> error + mime" where
  "layer_text_content L self =
     (if recipient_count self = 0 then Inl NoRecipientException
      else if self_text self = None \<and> self_html self = None then Inl NoBodyException
      else if self_text self \<noteq> None \<and> self_html self \<noteq> None then
        (case wrapped_text L self of
           Inl err \<Rightarrow> Inl err
         | Inr wt \<Rightarrow>
             (case render_text_quopri wt ''plain'' of
                Inl err \<Rightarrow> Inl err
              | Inr plain \<Rightarrow>
                  (case render_text_quopri (self_html self) ''html'' of
                     Inl err \<Rightarrow> Inl err
                   | Inr html \<Rightarrow>
                       Inr (attach_part
                              (attach_part (MIMEMultipart_init ''alternative'') plain) html))))
      else if self_text self \<noteq> None then
        (case wrapped_text L self of
           Inl err \<Rightarrow> Inl err
         | Inr wt \<Rightarrow> render_text_quopri wt ''plain'')
      else render_text_quopri (self_html self) ''html'')"

text \<open>The loop of \<open>_layer_attachments\<close> that attaches every attachment to \<open>msg\<close>.\<close>

fun attach_loop :: "mime \<Rightarrow> Attachment list \<Rightarrow> mime" where
  "attach_loop msg [] = msg"
| "attach_loop msg (attachment # rest) = attach_loop (attach_part msg (as_mime attachment)) rest"

definition layer_attachments :: "Email \<Rightarrow> mime \<Rightarrow> mime" where
  "layer_attachments self prev_layer =
     (if length (self_attachments self) = 0 then prev_layer
      else attach_loop (attach_part (MIMEMultipart_init ''related'') prev_layer)
             (self_attachments self))"

definition layer_security :: "Email \<Rightarrow> mime \<Rightarrow> mime" where
  "layer_security self prev_layer =
     (case self_security self of
        None \<Rightarrow> prev_layer
      | Some process \<Rightarrow> process prev_layer)"

subsection \<open>serialize\<close>

text \<open>The headers that \<open>serialize\<close> assigns to the outermost entity, in its order.\<close>

definition finalize_headers :: "lib \<Rightarrow> Email \<Rightarrow> mime \<Rightarrow> mime" where
  "finalize_headers L self msg =
     (let msg = (case self_subject self of
                   None \<Rightarrow> msg
                 | Some subj \<Rightarrow> set_item msg ''Subject'' subj);
          msg = set_item msg ''Message-ID'' (self_message_id self);
          msg = set_item msg ''Date'' (formatdate L (self_datetime self) True);
          msg = set_item msg ''User-Agent'' (''mailcoil v'' @ VERSION L);
          msg = set_item msg ''From'' (encode L (self_from self));
          msg = (if length (self_to self) > 0
                 then set_item msg ''To'' (join '', '' (map (encode L) (self_to self)))
                 else msg);
          msg = (if length (self_cc self) > 0
                 then set_item msg ''CC'' (join '', '' (map (encode L) (self_cc self)))
                 else msg);
          msg = (if length (self_bcc self) > 0
                 then set_item msg ''BCC'' (join '', '' (map (encode L) (self_bcc self)))
                 else msg)
      in msg)"

text \<open>
  \<open>serialize\<close> returns its result, or the exception it raised, together with the instance as
  the call leaves it.  The method assigns to no attribute of \<open>self\<close>.
\<close>

definition serialize :: "lib \<Rightarrow> Email \<Rightarrow> (error + SerializedEmail) \<times> Email" where
  "serialize L self =
     (case layer_text_content L self of
        Inl err \<Rightarrow> (Inl err, self)
      | Inr msg \<Rightarrow>
          (let msg = layer_attachments self msg;
               msg = layer_security self msg;
               msg = finalize_headers L self msg
           in (Inr \<lparr>recipients = map mail (self_to self @ self_cc self @ self_bcc self),
                     content = Message msg\<rparr>,
               self)))"

text \<open>The headers that \<open>serialize\<close> adds, as one list.\<close>

definition final_headers :: "lib \<Rightarrow> Email \<Rightarrow> (str \<times> str) list" where
  "final_headers L self =
     (case self_subject self of None \<Rightarrow> [] | Some subj \<Rightarrow> [(''Subject'', subj)])
     @ [(''Message-ID'', self_message_id self),
        (''Date'', formatdate L (self_datetime self) True),
        (''User-Agent'', ''mailcoil v'' @ VERSION L),
        (''From'', encode L (self_from self))]
     @ (if self_to self = [] then [] else [(''To'', join '', '' (map (encode L) (self_to self)))])
     @ (if self_cc self = [] then [] else [(''CC'', join '', '' (map (encode L) (self_cc self)))])
     @ (if self_bcc self = [] then []
        else [(''BCC'', join '', '' (map (encode L) (self_bcc self)))])"

section \<open>A stand-in library for running examples\<close>

text \<open>
  Concrete functions in place of the library, to evaluate the model on examples.
  \<open>demo_getaddresses\<close> finds no mailbox in the empty string and two in a string with a
  comma; it reads \<open>name <mail>\<close> as that pair and any other string as a bare mailbox.
  \<open>demo_formataddr\<close> writes \<open>name <mail>\<close>, or the bare mailbox for an empty name.
  \<open>demo_wrap\<close> cuts a line after \<open>width\<close> characters.  Nothing is proved about the
  real library from them.
\<close>

definition demo_getaddresses :: "str list \<Rightarrow> (str \<times> str) list" where
  "demo_getaddresses vs =
     (case vs of
        [s] \<Rightarrow>
          (if s = [] then []
           else if CHR '','' \<in> set s then [('''', s), ('''', s)]
           else if CHR ''<'' \<in> set s then
             [(takeWhile (\<lambda>c. c \<noteq> CHR '' '' \<and> c \<noteq> CHR ''<'') s,
               takeWhile (\<lambda>c. c \<noteq> CHR ''>'') (tl (dropWhile (\<lambda>c. c \<noteq> CHR ''<'') s)))]
           else [('''', s)])
      | _ \<Rightarrow> [])"

definition demo_formataddr :: "str \<times> str \<Rightarrow> str" where
  "demo_formataddr p = (if fst p = [] then snd p else fst p @ '' <'' @ snd p @ ''>'')"

fun demo_wrap :: "str \<Rightarrow> nat \<Rightarrow> str list" where
  "demo_wrap s width =
     (if s = [] then []
      else if length s \<le> width \<or> width = 0 then [s]
      else take width s # demo_wrap (drop width s) width)"

declare demo_wrap.simps [simp del]

definition demo_lib :: lib where
  "demo_lib =
     \<lparr>getaddresses = demo_getaddresses,
      formataddr = demo_formataddr,
      formatdate = (\<lambda>t localtime. ''Thu, 01 Jan 1970 00:00:00 +0000''),
      guess_type = (\<lambda>f. (None, None)),
      textwrap_wrap = demo_wrap,
      VERSION = ''0.0.1''\<rparr>"

text \<open>A mail with a text body only, and one with text, HTML and wrapping switched on.\<close>

definition demo_email :: Email where
  "demo_email =
     \<lparr>self_from = \<lparr>mail = ''me@x.org'', name = None\<rparr>,
      self_to = [\<lparr>mail = ''a@x.org'', name = Some ''A''\<rparr>],
      self_cc = [],
      self_bcc = [\<lparr>mail = ''b@x.org'', name = None\<rparr>],
      self_subject = Some ''Hi'',
      self_text = Some ''hello'',
      self_wrap_text = False,
      self_html = None,
      self_security = None,
      self_datetime = 0,
      self_message_id = ''<00@mailcoil>'',
      self_attachments = []\<rparr>"

definition demo_rich :: Email where
  "demo_rich =
     demo_email\<lparr>self_text := Some (''one'' @ [CHR 0x0A, CHR 0x0A] @ ''two''),
                self_wrap_text := True,
                self_html := Some ''<p>one</p>''\<rparr>"

text \<open>A mail without recipients and without a body.\<close>

definition demo_blank :: Email where
  "demo_blank =
     demo_email\<lparr>self_to := [], self_bcc := [], self_text := None\<rparr>"

text \<open>A mail with two attachments, added one after the other.\<close>

definition demo_attached :: Email where
  "demo_attached =
     demo_email\<lparr>self_attachments :=
       [\<lparr>data = [1, 2], maintype = ''application'', subtype = ''octet-stream'',
         filename = ''a.bin'', inline = False, content_id = ''cid0''\<rparr>,
        \<lparr>data = [3], maintype = ''image'', subtype = ''png'',
         filename = ''b.png'', inline = True, content_id = ''logo''\<rparr>]\<rparr>"

text \<open>A text of three paragraphs: a long one, an empty one and a short one.\<close>

definition demo_text :: str where
  "demo_text = replicate 80 (CHR ''a'') @ [CHR 0x0A, CHR 0x0A] @ ''two''"

section \<open>Properties\<close>

subsection \<open>Strings\<close>

lemma split_nonempty: "split sep s \<noteq> []"
  by (induction s) (auto split: list.splits)

lemma split_no_sep: "sep \<notin> set s \<Longrightarrow> split sep s = [s]"
  by (induction s) auto

lemma split_append_sep: "sep \<notin> set x \<Longrightarrow> split sep (x @ sep # rest) = x # split sep rest"
  by (induction x) auto

text \<open>Splitting what was joined gives the pieces back, when no piece holds the separator.\<close>

lemma split_join:
  "xs \<noteq> [] \<Longrightarrow> \<forall>x \<in> set xs. sep \<notin> set x \<Longrightarrow> split sep (join [sep] xs) = xs"
proof (induction xs)
  case Nil
  then show ?case by simp
next
  case (Cons x xs)
  show ?case
  proof (cases xs)
    case Nil
    with Cons.prems show ?thesis by (simp add: split_no_sep)
  next
    case (Cons y ys)
    with Cons.IH Cons.prems have "split sep (join [sep] xs) = xs" by simp
    with Cons Cons.prems show ?thesis by (simp add: split_append_sep)
  qed
qed

subsection \<open>Entities and headers\<close>

lemma headers_of_set_item: "headers_of (set_item msg key val) = headers_of msg @ [(key, val)]"
  by (cases msg) simp_all

lemma attach_loop_multipart:
  "attach_loop (MIMEMultipart st ps hs) atts = MIMEMultipart st (ps @ map as_mime atts) hs"
  by (induction atts arbitrary: ps) simp_all

lemma as_mime_eq:
  "as_mime a =
     MIMEGeneric (data a) (maintype a) (subtype a) encode_base64 []
       [(''Content-Disposition'',
         (if inline a then ''inline'' else ''attachment'')
           @ ''; filename='' @ [CHR 0x22] @ filename a @ [CHR 0x22]),
        (''Content-ID'', content_id a)]"
  by (simp add: as_mime_def MIMEGeneric_init_def Let_def)

lemma render_text_quopri_Some:
  "render_text_quopri (Some t) subty =
     Inr (MIMEGeneric (encode_utf8 t) ''text'' subty encode_quopri [(''charset'', ''utf-8'')] [])"
  by (simp add: render_text_quopri_def MIMEGeneric_init_def)

lemma headers_of_finalize:
  "headers_of (finalize_headers L self msg) = headers_of msg @ final_headers L self"
  by (simp add: finalize_headers_def final_headers_def Let_def headers_of_set_item
        split: option.splits)

lemma header_values_finalize_message_id:
  "header_values (finalize_headers L self msg) ''Message-ID''
     = header_values msg ''Message-ID'' @ [self_message_id self]"
  by (simp add: header_values_def headers_of_finalize final_headers_def split: option.splits)

lemma header_values_finalize_date:
  "header_values (finalize_headers L self msg) ''Date''
     = header_values msg ''Date'' @ [formatdate L (self_datetime self) True]"
  by (simp add: header_values_def headers_of_finalize final_headers_def split: option.splits)

subsection \<open>The body layer\<close>

lemma wrapped_text_Some:
  "self_text self = Some t \<Longrightarrow>
   wrapped_text L self = Inr (Some (if self_wrap_text self then wrap_paragraphs L t else t))"
  by (simp add: wrapped_text_def)

lemma layer_text_content_no_recipient:
  "recipient_count self = 0 \<Longrightarrow> layer_text_content L self = Inl NoRecipientException"
  by (simp add: layer_text_content_def)

lemma layer_text_content_no_body:
  "recipient_count self \<noteq> 0 \<Longrightarrow> self_text self = None \<Longrightarrow> self_html self = None \<Longrightarrow>
   layer_text_content L self = Inl NoBodyException"
  by (simp add: layer_text_content_def)

lemma layer_text_content_both:
  "recipient_count self \<noteq> 0 \<Longrightarrow> self_text self = Some t \<Longrightarrow> self_html self = Some h \<Longrightarrow>
   layer_text_content L self =
     Inr (MIMEMultipart ''alternative''
            [MIMEGeneric (encode_utf8 (if self_wrap_text self then wrap_paragraphs L t else t))
               ''text'' ''plain'' encode_quopri [(''charset'', ''utf-8'')] [],
             MIMEGeneric (encode_utf8 h)
               ''text'' ''html'' encode_quopri [(''charset'', ''utf-8'')] []] [])"
  by (simp add: layer_text_content_def wrapped_text_Some render_text_quopri_Some
        MIMEMultipart_init_def)

lemma layer_text_content_text:
  "recipient_count self \<noteq> 0 \<Longrightarrow> self_text self = Some t \<Longrightarrow> self_html self = None \<Longrightarrow>
   layer_text_content L self =
     Inr (MIMEGeneric (encode_utf8 (if self_wrap_text self then wrap_paragraphs L t else t))
            ''text'' ''plain'' encode_quopri [(''charset'', ''utf-8'')] [])"
  by (simp add: layer_text_content_def wrapped_text_Some render_text_quopri_Some)

lemma layer_text_content_html:
  "recipient_count self \<noteq> 0 \<Longrightarrow> self_text self = None \<Longrightarrow> self_html self = Some h \<Longrightarrow>
   layer_text_content L self =
     Inr (MIMEGeneric (encode_utf8 h) ''text'' ''html'' encode_quopri [(''charset'', ''utf-8'')] [])"
  by (simp add: layer_text_content_def render_text_quopri_Some)

text \<open>
  The body layer ends in one of three ways; \<open>AttributeError\<close> is never among them, since
  the text is wrapped and rendered only where it is present.
\<close>

lemma layer_text_content_cases:
  "layer_text_content L self = Inl NoRecipientException \<and> recipient_count self = 0
   \<or> layer_text_content L self = Inl NoBodyException \<and> recipient_count self \<noteq> 0
        \<and> self_text self = None \<and> self_html self = None
   \<or> (\<exists>msg. layer_text_content L self = Inr msg) \<and> recipient_count self \<noteq> 0
        \<and> (self_text self \<noteq> None \<or> self_html self \<noteq> None)"
proof (cases "recipient_count self = 0")
  case True
  then show ?thesis by (simp add: layer_text_content_no_recipient)
next
  case rc: False
  show ?thesis
  proof (cases "self_text self")
    case None
    show ?thesis
    proof (cases "self_html self")
      case None
      with \<open>self_text self = None\<close> rc show ?thesis by (simp add: layer_text_content_no_body)
    next
      case (Some h)
      with \<open>self_text self = None\<close> rc show ?thesis by (simp add: layer_text_content_html)
    qed
  next
    case (Some t)
    show ?thesis
    proof (cases "self_html self")
      case None
      with Some rc show ?thesis by (simp add: layer_text_content_text)
    next
      case (Some h)
      with \<open>self_text self = Some t\<close> rc show ?thesis by (simp add: layer_text_content_both)
    qed
  qed
qed

subsection \<open>serialize\<close>

lemma serialize_state: "snd (serialize L self) = self"
  by (simp add: serialize_def Let_def split: sum.splits)

lemma serialize_Inl:
  "fst (serialize L self) = Inl err \<longleftrightarrow> layer_text_content L self = Inl err"
  by (simp add: serialize_def Let_def split: sum.splits)

lemma serialize_Inr:
  "layer_text_content L self = Inr body \<Longrightarrow>
   serialize L self =
     (Inr \<lparr>recipients = map mail (self_to self @ self_cc self @ self_bcc self),
           content = Message (finalize_headers L self
                                (layer_security self (layer_attachments self body)))\<rparr>, self)"
  by (simp add: serialize_def Let_def)

lemma serialize_Inr_content:
  "serialize L self = (Inr r, self') \<Longrightarrow>
   \<exists>body. layer_text_content L self = Inr body \<and> self' = self
     \<and> recipients r = map mail (self_to self @ self_cc self @ self_bcc self)
     \<and> content r = Message (finalize_headers L self
                               (layer_security self (layer_attachments self body)))"
  by (auto simp add: serialize_def Let_def split: sum.splits)

text \<open>The builder methods leave the message id and the timestamp of construction alone.\<close>

lemma to_keeps_identity:
  "to L addrs self = Inr self' \<Longrightarrow>
   self_message_id self' = self_message_id self \<and> self_datetime self' = self_datetime self
   \<and> self_to self' = self_to self @ (case parse_all L addrs of Inr as \<Rightarrow> as | Inl e \<Rightarrow> [])"
  by (auto simp add: to_def split: sum.splits)

lemma attach_data_keeps_identity:
  "attach_data L dat fname mt inl cid self = Inr (uri, self') \<Longrightarrow>
   self_message_id self' = self_message_id self \<and> self_datetime self' = self_datetime self"
  by (auto simp add: attach_data_def Let_def split: list.splits)

subsection \<open>Text wrapping\<close>

lemma wrap_loop_eq: "wrap_loop L ps wrapped = wrapped @ concat (map (reflow L) ps)"
  by (induction ps arbitrary: wrapped) (simp_all add: reflow_def Let_def)

lemma reflow_nonempty: "reflow L p \<noteq> []"
  by (simp add: reflow_def)

section \<open>The claims\<close>

text \<open>
  C1.  The specification says that the field \<open>content\<close> of the result of \<open>serialize\<close> holds
  the final document as a byte sequence, as its declaration \<open>content: bytes\<close> does.  The
  code stores the message object itself, with the headers on it: no byte sequence is made.
  On the text-only mail \<open>demo_email\<close> the result is the following.
\<close>

theorem serialize_content_is_message_object:
  "serialize demo_lib demo_email =
     (Inr \<lparr>recipients = [''a@x.org'', ''b@x.org''],
           content = Message
             (MIMEGeneric (encode_utf8 ''hello'') ''text'' ''plain'' encode_quopri
                [(''charset'', ''utf-8'')]
                [(''Subject'', ''Hi''), (''Message-ID'', ''<00@mailcoil>''),
                 (''Date'', ''Thu, 01 Jan 1970 00:00:00 +0000''),
                 (''User-Agent'', ''mailcoil v0.0.1''),
                 (''From'', ''me@x.org''), (''To'', ''A <a@x.org>''),
                 (''BCC'', ''b@x.org'')])\<rparr>,
      demo_email)"
  by (simp add: serialize_def layer_text_content_def recipient_count_def demo_email_def
        demo_lib_def wrapped_text_def render_text_quopri_def MIMEGeneric_init_def
        layer_attachments_def layer_security_def finalize_headers_def encode_def
        demo_formataddr_def Let_def)

text \<open>
  C2.  \<open>serialize\<close> raises \<open>NoRecipientException\<close> exactly when the recipient count is
  zero, and \<open>NoBodyException\<close> exactly when there are recipients and neither text nor HTML
  is set.  Whatever the outcome, the instance is left as it was.
\<close>

theorem serialize_errors_exactly:
  "(fst (serialize L self) = Inl NoRecipientException \<longleftrightarrow> recipient_count self = 0)
   \<and> (fst (serialize L self) = Inl NoBodyException \<longleftrightarrow>
        recipient_count self \<noteq> 0 \<and> self_text self = None \<and> self_html self = None)
   \<and> snd (serialize L self) = self"
  using layer_text_content_cases [of L self]
  by (auto simp add: serialize_Inl serialize_state)

theorem serialize_errors_exactly_witness:
  "fst (serialize demo_lib demo_blank) = Inl NoRecipientException
   \<and> fst (serialize demo_lib (demo_email\<lparr>self_text := None\<rparr>)) = Inl NoBodyException
   \<and> fst (serialize demo_lib demo_email) \<noteq> Inl NoRecipientException
   \<and> fst (serialize demo_lib demo_email) \<noteq> Inl NoBodyException
   \<and> snd (serialize demo_lib demo_blank) = demo_blank"
  using serialize_errors_exactly [of demo_lib demo_blank]
    serialize_errors_exactly [of demo_lib "demo_email\<lparr>self_text := None\<rparr>"]
    serialize_errors_exactly [of demo_lib demo_email]
  by (simp add: recipient_count_def demo_blank_def demo_email_def)

text \<open>
  C3.  When \<open>serialize\<close> succeeds, the recipients of the result are the mailboxes of
  \<open>to\<close>, then of \<open>cc\<close>, then of \<open>bcc\<close>, in order and without the display names, whichever
  of the three lists are empty.  It does succeed whenever there is a recipient and a body.
\<close>

theorem serialize_recipients:
  "(recipient_count self \<noteq> 0 \<and> (self_text self \<noteq> None \<or> self_html self \<noteq> None)
      \<longrightarrow> (\<exists>r. serialize L self = (Inr r, self)))
   \<and> (serialize L self = (Inr r, self')
      \<longrightarrow> recipients r
            = map mail (self_to self) @ map mail (self_cc self) @ map mail (self_bcc self))"
proof (intro conjI impI)
  assume "recipient_count self \<noteq> 0 \<and> (self_text self \<noteq> None \<or> self_html self \<noteq> None)"
  with layer_text_content_cases [of L self]
  obtain body where "layer_text_content L self = Inr body" by auto
  then show "\<exists>r. serialize L self = (Inr r, self)" by (simp add: serialize_Inr)
next
  assume "serialize L self = (Inr r, self')"
  then show "recipients r
      = map mail (self_to self) @ map mail (self_cc self) @ map mail (self_bcc self)"
    using serialize_Inr_content by fastforce
qed

theorem serialize_recipients_witness:
  "recipient_count demo_email \<noteq> 0
   \<and> (\<exists>r. serialize demo_lib demo_email = (Inr r, demo_email)
          \<and> recipients r = [''a@x.org'', ''b@x.org''])"
proof -
  have rc: "recipient_count demo_email \<noteq> 0 
      \<and> (self_text demo_email \<noteq> None \<or> self_html demo_email \<noteq> None)"
    by (simp add: recipient_count_def demo_email_def)
  then obtain r where r: "serialize demo_lib demo_email = (Inr r, demo_email)"
    using serialize_recipients [of demo_email demo_lib] by blast
  then have "recipients r = [''a@x.org'', ''b@x.org'']"
    using serialize_recipients [of demo_email demo_lib r demo_email]
    by (simp add: demo_email_def)
  with rc r show ?thesis by blast
qed

text \<open>
  C4.  The body layer of a mail with text and HTML is a \<open>multipart/alternative\<close>
  container whose first child is the plain-text part and whose second child is the HTML
  part; with text only it is the plain-text leaf; with HTML only it is the HTML leaf.  The
  plain-text part carries the text, wrapped when \<open>wrap_text\<close> is set.  A body layer is
  built for every mail that has a recipient and text or HTML; a mail without a recipient
  has none, since \<open>_layer_text_content\<close> raises before it builds anything.
\<close>

theorem body_layer_shape:
  "(recipient_count self \<noteq> 0 \<and> (self_text self \<noteq> None \<or> self_html self \<noteq> None)
      \<longrightarrow> (\<exists>body. layer_text_content L self = Inr body))
   \<and> (layer_text_content L self = Inr msg \<longrightarrow>
        (case (self_text self, self_html self) of
           (Some t, Some h) \<Rightarrow>
             msg = MIMEMultipart ''alternative''
                     [MIMEGeneric
                        (encode_utf8 (if self_wrap_text self then wrap_paragraphs L t else t))
                        ''text'' ''plain'' encode_quopri [(''charset'', ''utf-8'')] [],
                      MIMEGeneric (encode_utf8 h)
                        ''text'' ''html'' encode_quopri [(''charset'', ''utf-8'')] []] []
         | (Some t, None) \<Rightarrow>
             msg = MIMEGeneric
                     (encode_utf8 (if self_wrap_text self then wrap_paragraphs L t else t))
                     ''text'' ''plain'' encode_quopri [(''charset'', ''utf-8'')] []
         | (None, Some h) \<Rightarrow>
             msg = MIMEGeneric (encode_utf8 h)
                     ''text'' ''html'' encode_quopri [(''charset'', ''utf-8'')] []
         | (None, None) \<Rightarrow> False))"
proof (intro conjI impI)
  assume "recipient_count self \<noteq> 0 \<and> (self_text self \<noteq> None \<or> self_html self \<noteq> None)"
  with layer_text_content_cases [of L self]
  show "\<exists>body. layer_text_content L self = Inr body" by auto
next
  assume built: "layer_text_content L self = Inr msg"
  with layer_text_content_cases [of L self]
  have rc: "recipient_count self \<noteq> 0" by auto
  show "case (self_text self, self_html self) of
           (Some t, Some h) \<Rightarrow>
             msg = MIMEMultipart ''alternative''
                     [MIMEGeneric
                        (encode_utf8 (if self_wrap_text self then wrap_paragraphs L t else t))
                        ''text'' ''plain'' encode_quopri [(''charset'', ''utf-8'')] [],
                      MIMEGeneric (encode_utf8 h)
                        ''text'' ''html'' encode_quopri [(''charset'', ''utf-8'')] []] []
         | (Some t, None) \<Rightarrow>
             msg = MIMEGeneric
                     (encode_utf8 (if self_wrap_text self then wrap_paragraphs L t else t))
                     ''text'' ''plain'' encode_quopri [(''charset'', ''utf-8'')] []
         | (None, Some h) \<Rightarrow>
             msg = MIMEGeneric (encode_utf8 h)
                     ''text'' ''html'' encode_quopri [(''charset'', ''utf-8'')] []
         | (None, None) \<Rightarrow> False"
  proof (cases "self_text self")
    case None
    with rc built show ?thesis
      by (cases "self_html self")
         (simp_all add: layer_text_content_no_body layer_text_content_html)
  next
    case (Some t)
    with rc built show ?thesis
      by (cases "self_html self")
         (simp_all add: layer_text_content_text layer_text_content_both)
  qed
qed

theorem body_layer_shape_witness:
  "layer_text_content demo_lib demo_rich =
       Inr (MIMEMultipart ''alternative''
              [MIMEGeneric (encode_utf8 (''one'' @ [CHR 0x0A, CHR 0x0A] @ ''two''))
                 ''text'' ''plain'' encode_quopri [(''charset'', ''utf-8'')] [],
               MIMEGeneric (encode_utf8 ''<p>one</p>'')
                 ''text'' ''html'' encode_quopri [(''charset'', ''utf-8'')] []] [])
   \<and> layer_text_content demo_lib demo_email =
       Inr (MIMEGeneric (encode_utf8 ''hello'')
              ''text'' ''plain'' encode_quopri [(''charset'', ''utf-8'')] [])
   \<and> layer_text_content demo_lib (demo_rich\<lparr>self_text := None\<rparr>) =
       Inr (MIMEGeneric (encode_utf8 ''<p>one</p>'')
              ''text'' ''html'' encode_quopri [(''charset'', ''utf-8'')] [])"
proof -
  have w: "wrap_paragraphs demo_lib (''one'' @ [CHR 0x0A, CHR 0x0A] @ ''two'')
             = ''one'' @ [CHR 0x0A, CHR 0x0A] @ ''two''"
    by (simp add: wrap_paragraphs_def demo_lib_def demo_wrap.simps)
  have rc: "recipient_count demo_rich \<noteq> 0 
              \<and> (self_text demo_rich \<noteq> None \<or> self_html demo_rich \<noteq> None)"
    "recipient_count demo_email \<noteq> 0 
       \<and> (self_text demo_email \<noteq> None \<or> self_html demo_email \<noteq> None)"
    "recipient_count (demo_rich\<lparr>self_text := None\<rparr>) \<noteq> 0
       \<and> (self_text (demo_rich\<lparr>self_text := None\<rparr>) \<noteq> None 
            \<or> self_html (demo_rich\<lparr>self_text := None\<rparr>) \<noteq> None)"
    by (simp_all add: recipient_count_def demo_rich_def demo_email_def)
  from rc(1) obtain b1 where b1: "layer_text_content demo_lib demo_rich = Inr b1"
    using body_layer_shape [of demo_rich demo_lib] by blast
  from rc(2) obtain b2 where b2: "layer_text_content demo_lib demo_email = Inr b2"
    using body_layer_shape [of demo_email demo_lib] by blast
  from rc(3) obtain b3
    where b3: "layer_text_content demo_lib (demo_rich\<lparr>self_text := None\<rparr>) = Inr b3"
    using body_layer_shape [of "demo_rich\<lparr>self_text := None\<rparr>" demo_lib] by blast
  from b1 w body_layer_shape [of demo_rich demo_lib b1]
  have "b1 = MIMEMultipart ''alternative''
              [MIMEGeneric (encode_utf8 (''one'' @ [CHR 0x0A, CHR 0x0A] @ ''two''))
                 ''text'' ''plain'' encode_quopri [(''charset'', ''utf-8'')] [],
               MIMEGeneric (encode_utf8 ''<p>one</p>'')
                 ''text'' ''html'' encode_quopri [(''charset'', ''utf-8'')] []] []"
    by (simp add: demo_rich_def demo_email_def)
  moreover from b2 body_layer_shape [of demo_email demo_lib b2]
  have "b2 = MIMEGeneric (encode_utf8 ''hello'')
              ''text'' ''plain'' encode_quopri [(''charset'', ''utf-8'')] []"
    by (simp add: demo_email_def)
  moreover from b3 body_layer_shape [of "demo_rich\<lparr>self_text := None\<rparr>" demo_lib b3]
  have "b3 = MIMEGeneric (encode_utf8 ''<p>one</p>'')
              ''text'' ''html'' encode_quopri [(''charset'', ''utf-8'')] []"
    by (simp add: demo_rich_def demo_email_def)
  ultimately show ?thesis using b1 b2 b3 by simp
qed

text \<open>
  C5.  The attachment layer returns the body layer as it is when there is no attachment;
  otherwise it is a \<open>multipart/related\<close> container whose first child is the body layer
  and whose further children are the leaves rendered from the attachments, in the order of
  the attachment list.  \<open>attach_data\<close> puts each new attachment at the end of that list,
  so the order of the list is the order in which the attachments were added.
\<close>

theorem attachment_layer_shape:
  "layer_attachments self prev_layer =
     (if self_attachments self = [] then prev_layer
      else MIMEMultipart ''related'' (prev_layer # map as_mime (self_attachments self)) [])
   \<and> (attach_data L dat fname mt inl cid self = Inr (uri, self')
      \<longrightarrow> (\<exists>a. self_attachments self' = self_attachments self @ [a]
               \<and> data a = dat \<and> filename a = fname \<and> inline a = inl
               \<and> uri = ''cid:'' @ content_id a))"
proof (intro conjI impI)
  show "layer_attachments self prev_layer =
     (if self_attachments self = [] then prev_layer
      else MIMEMultipart ''related'' (prev_layer # map as_mime (self_attachments self)) [])"
    by (simp add: layer_attachments_def MIMEMultipart_init_def attach_loop_multipart)
next
  assume "attach_data L dat fname mt inl cid self = Inr (uri, self')"
  then show "\<exists>a. self_attachments self' = self_attachments self @ [a]
               \<and> data a = dat \<and> filename a = fname \<and> inline a = inl
               \<and> uri = ''cid:'' @ content_id a"
    by (auto simp add: attach_data_def Let_def split: list.splits)
qed

theorem attachment_layer_shape_witness:
  "attach_data demo_lib [1, 2] ''a.bin'' None False None demo_email
     = Inr (''cid:cid0'', demo_email\<lparr>self_attachments := [hd (self_attachments demo_attached)]\<rparr>)
   \<and> attach_data demo_lib [3] ''b.png'' (Some ''image/png'') True (Some ''logo'')
        (demo_email\<lparr>self_attachments := [hd (self_attachments demo_attached)]\<rparr>)
     = Inr (''cid:logo'', demo_attached)
   \<and> layer_attachments demo_email (MIMEMultipart_init ''alternative'')
     = MIMEMultipart_init ''alternative''
   \<and> layer_attachments demo_attached (MIMEMultipart_init ''alternative'')
     = MIMEMultipart ''related''
         [MIMEMultipart_init ''alternative'',
          MIMEGeneric [1, 2] ''application'' ''octet-stream'' encode_base64 []
            [(''Content-Disposition'', ''attachment; filename='' @ [CHR 0x22] @ ''a.bin'' @ [CHR 0x22]),
             (''Content-ID'', ''cid0'')],
          MIMEGeneric [3] ''image'' ''png'' encode_base64 []
            [(''Content-Disposition'', ''inline; filename='' @ [CHR 0x22] @ ''b.png'' @ [CHR 0x22]),
             (''Content-ID'', ''logo'')]] []"
proof -
  have a1: "attach_data demo_lib [1, 2] ''a.bin'' None False None demo_email
     = Inr (''cid:cid0'', demo_email\<lparr>self_attachments := [hd (self_attachments demo_attached)]\<rparr>)"
  proof -
    have "str_nat 0 = ''0''" by code_simp
    then show ?thesis
      by (simp add: attach_data_def mimetype_def demo_lib_def demo_email_def demo_attached_def
            Let_def)
  qed
  have a2: "attach_data demo_lib [3] ''b.png'' (Some ''image/png'') True (Some ''logo'')
        (demo_email\<lparr>self_attachments := [hd (self_attachments demo_attached)]\<rparr>)
     = Inr (''cid:logo'', demo_attached)"
    by (simp add: attach_data_def mimetype_def demo_lib_def demo_email_def demo_attached_def
          Let_def)
  show ?thesis
    using a1 a2
      attachment_layer_shape [of demo_email "MIMEMultipart_init ''alternative''"
        demo_lib "[1, 2]" "''a.bin''" None False None "''cid:cid0''"
        "demo_email\<lparr>self_attachments := [hd (self_attachments demo_attached)]\<rparr>"]
      attachment_layer_shape [of demo_attached "MIMEMultipart_init ''alternative''"
        demo_lib "[1, 2]" "''a.bin''" None False None "''cid:cid0''"
        "demo_email\<lparr>self_attachments := [hd (self_attachments demo_attached)]\<rparr>"]
    by (simp add: demo_email_def demo_attached_def as_mime_eq)
qed





text \<open>
  C8.  With wrapping, the text is split at every newline and each paragraph is reflowed on
  its own, by the library, to 72 columns.  The result is the lines of the paragraphs, one
  block of lines for each paragraph, in the order of the paragraphs, joined by newlines.
  No block is empty: a paragraph for which the library returns no line, as it does for an
  empty one, gives one empty line, so no paragraph is dropped or runs into its neighbour.
  When no reflowed line holds a newline, the lines of the result are exactly those blocks.
\<close>

theorem wrap_paragraphs_keeps_paragraphs:
  "wrap_paragraphs L text
     = join [CHR 0x0A] (concat (map (reflow L) (split (CHR 0x0A) text)))
   \<and> length (map (reflow L) (split (CHR 0x0A) text)) = length (split (CHR 0x0A) text)
   \<and> (\<forall>p \<in> set (split (CHR 0x0A) text).
         reflow L p \<noteq> []
         \<and> (textwrap_wrap L p 72 = [] \<longrightarrow> reflow L p = [''''])
         \<and> (textwrap_wrap L p 72 \<noteq> [] \<longrightarrow> reflow L p = textwrap_wrap L p 72))
   \<and> ((\<forall>p \<in> set (split (CHR 0x0A) text). \<forall>l \<in> set (textwrap_wrap L p 72). CHR 0x0A \<notin> set l)
        \<longrightarrow> split (CHR 0x0A) (wrap_paragraphs L text)
              = concat (map (reflow L) (split (CHR 0x0A) text)))"
proof (intro conjI impI ballI)
  show eq: "wrap_paragraphs L text
      = join [CHR 0x0A] (concat (map (reflow L) (split (CHR 0x0A) text)))"
    by (simp add: wrap_paragraphs_def wrap_loop_eq)
  show "length (map (reflow L) (split (CHR 0x0A) text)) = length (split (CHR 0x0A) text)"
    by simp
  show "\<And>p. reflow L p \<noteq> []" by (simp add: reflow_def)
  show "\<And>p. textwrap_wrap L p 72 = [] \<Longrightarrow> reflow L p = ['''']" by (simp add: reflow_def)
  show "\<And>p. textwrap_wrap L p 72 \<noteq> [] \<Longrightarrow> reflow L p = textwrap_wrap L p 72"
    by (simp add: reflow_def)
  assume nl: "\<forall>p \<in> set (split (CHR 0x0A) text). \<forall>l \<in> set (textwrap_wrap L p 72). CHR 0x0A \<notin> set l"
  let ?blocks = "map (reflow L) (split (CHR 0x0A) text)"
  have "concat ?blocks \<noteq> []"
    using split_nonempty [of "CHR 0x0A" "text"] reflow_nonempty [of L]
    by (cases "split (CHR 0x0A) text") auto
  moreover have "\<forall>l \<in> set (concat ?blocks). CHR 0x0A \<notin> set l"
    using nl by (auto simp add: reflow_def split: if_splits)
  ultimately show "split (CHR 0x0A) (wrap_paragraphs L text) = concat ?blocks"
    using eq by (simp add: split_join)
qed

theorem wrap_paragraphs_keeps_paragraphs_witness:
  "split (CHR 0x0A) demo_text = [replicate 80 (CHR ''a''), '''', ''two'']
   \<and> map (reflow demo_lib) (split (CHR 0x0A) demo_text)
       = [[replicate 72 (CHR ''a''), replicate 8 (CHR ''a'')], [''''], [''two'']]
   \<and> split (CHR 0x0A) (wrap_paragraphs demo_lib demo_text)
       = [replicate 72 (CHR ''a''), replicate 8 (CHR ''a''), '''', ''two'']"
proof -
  have s: "split (CHR 0x0A) demo_text = [replicate 80 (CHR ''a''), '''', ''two'']"
    unfolding demo_text_def by (simp add: split_append_sep split_no_sep)
  have w1: "demo_wrap (replicate 80 (CHR ''a'')) 72
      = [replicate 72 (CHR ''a''), replicate 8 (CHR ''a'')]"
    by (simp add: demo_wrap.simps [of "replicate 80 (CHR ''a'')"]
          demo_wrap.simps [of "replicate 8 (CHR ''a'')"])
  have w2: "demo_wrap '''' 72 = []" "demo_wrap ''two'' 72 = [''two'']"
    by (simp_all add: demo_wrap.simps)
  have r: "map (reflow demo_lib) (split (CHR 0x0A) demo_text)
       = [[replicate 72 (CHR ''a''), replicate 8 (CHR ''a'')], [''''], [''two'']]"
    by (simp add: s reflow_def demo_lib_def w1 w2)
  have nl: "\<forall>p \<in> set (split (CHR 0x0A) demo_text).
      \<forall>l \<in> set (textwrap_wrap demo_lib p 72). CHR 0x0A \<notin> set l"
    by (simp add: s demo_lib_def w1 w2)
  from wrap_paragraphs_keeps_paragraphs [of demo_lib demo_text] nl
  have "split (CHR 0x0A) (wrap_paragraphs demo_lib demo_text)
      = concat (map (reflow demo_lib) (split (CHR 0x0A) demo_text))"
    by blast
  also have "\<dots> = [replicate 72 (CHR ''a''), replicate 8 (CHR ''a''), '''', ''two'']"
    unfolding r by simp
  finally show ?thesis using s r by (intro conjI)
qed

text \<open>
  C9.  Two calls of \<open>serialize\<close> in a row, with nothing done to the mail in between, give
  the same \<open>Message-ID\<close> headers and the same \<open>Date\<close> headers.  The header that
  \<open>serialize\<close> itself sets is the message id stored at construction, and the date is
  formatted from the timestamp stored at construction; the first call leaves both as they
  were.
\<close>

theorem serialize_twice_same_identity:
  assumes "serialize L self = (Inr r1, self1)" and "serialize L self1 = (Inr r2, self2)"
  shows "\<exists>m1 m2. content r1 = Message m1 \<and> content r2 = Message m2
           \<and> header_values m1 ''Message-ID'' = header_values m2 ''Message-ID''
           \<and> header_values m1 ''Date'' = header_values m2 ''Date''
           \<and> last (header_values m1 ''Message-ID'') = self_message_id self
           \<and> last (header_values m1 ''Date'') = formatdate L (self_datetime self) True"
proof -
  from assms(1) obtain b1 where b1: "layer_text_content L self = Inr b1" "self1 = self"
    "content r1 = Message (finalize_headers L self
                               (layer_security self (layer_attachments self b1)))"
    using serialize_Inr_content by blast
  from assms(2) b1(2) obtain b2 where b2: "layer_text_content L self = Inr b2"
    "content r2 = Message (finalize_headers L self
                               (layer_security self (layer_attachments self b2)))"
    using serialize_Inr_content by blast
  from b1(1) b2(1) have "b1 = b2" by simp
  with b1 b2 show ?thesis
    by (simp add: header_values_finalize_message_id header_values_finalize_date)
qed

theorem serialize_twice_same_identity_witness:
  "\<exists>r1 r2 m1 m2. serialize demo_lib demo_email = (Inr r1, demo_email)
     \<and> serialize demo_lib demo_email = (Inr r2, demo_email)
     \<and> content r1 = Message m1 \<and> content r2 = Message m2
     \<and> header_values m1 ''Message-ID'' = header_values m2 ''Message-ID''
     \<and> header_values m1 ''Date'' = header_values m2 ''Date''
     \<and> last (header_values m1 ''Message-ID'') = ''<00@mailcoil>''
     \<and> last (header_values m1 ''Date'') = ''Thu, 01 Jan 1970 00:00:00 +0000''"
proof -
  have b: "layer_text_content demo_lib demo_email
      = Inr (MIMEGeneric (encode_utf8 ''hello'')
               ''text'' ''plain'' encode_quopri [(''charset'', ''utf-8'')] [])"
    by (simp add: layer_text_content_def recipient_count_def demo_email_def wrapped_text_def
          render_text_quopri_def MIMEGeneric_init_def)
  let ?r = "\<lparr>recipients = map mail (self_to demo_email @ self_cc demo_email @ self_bcc demo_email),
             content = Message (finalize_headers demo_lib demo_email
               (layer_security demo_email (layer_attachments demo_email
                 (MIMEGeneric (encode_utf8 ''hello'')
                    ''text'' ''plain'' encode_quopri [(''charset'', ''utf-8'')] []))))\<rparr>"
  have s: "serialize demo_lib demo_email = (Inr ?r, demo_email)"
    using serialize_Inr [OF b] .
  from serialize_twice_same_identity [OF s s]
  obtain m1 m2 where "content ?r = Message m1" "content ?r = Message m2"
    "header_values m1 ''Message-ID'' = header_values m2 ''Message-ID''"
    "header_values m1 ''Date'' = header_values m2 ''Date''"
    "last (header_values m1 ''Message-ID'') = self_message_id demo_email"
    "last (header_values m1 ''Date'') = formatdate demo_lib (self_datetime demo_email) True"
    by blast
  moreover have "self_message_id demo_email = ''<00@mailcoil>''"
    "formatdate demo_lib (self_datetime demo_email) True = ''Thu, 01 Jan 1970 00:00:00 +0000''"
    by (simp_all add: demo_email_def demo_lib_def)
  ultimately show ?thesis using s by metis
qed

text \<open>
  C10.  A mail with no recipient and with neither text nor HTML fails with
  \<open>NoRecipientException\<close>, not with \<open>NoBodyException\<close>: the recipients are checked first.
\<close>

theorem no_recipient_checked_first:
  "recipient_count self = 0 \<Longrightarrow> self_text self = None \<Longrightarrow> self_html self = None \<Longrightarrow>
   serialize L self = (Inl NoRecipientException, self)
   \<and> fst (serialize L self) \<noteq> Inl NoBodyException"
  by (simp add: serialize_def layer_text_content_no_recipient)

theorem no_recipient_checked_first_witness:
  "recipient_count demo_blank = 0 \<and> self_text demo_blank = None \<and> self_html demo_blank = None
   \<and> serialize demo_lib demo_blank = (Inl NoRecipientException, demo_blank)"
proof -
  have h: "recipient_count demo_blank = 0" "self_text demo_blank = None"
    "self_html demo_blank = None"
    by (simp_all add: recipient_count_def demo_blank_def demo_email_def)
  show ?thesis
    using h no_recipient_checked_first [OF h, of demo_lib] by simp
qed

end
